theory Spec2Isabelle
  imports Main "HOL-Library.Word"
begin

section \<open>JavaScript strings\<close>

text \<open>
  A JavaScript string is a sequence of UTF-16 code units. The script compares attribute
  values with \<open>===\<close>, trims field values, tests the email against a regular expression
  whose class \<open>\S\<close> is defined on code units, and percent-encodes text for a mailto link;
  all four work on code units, so a string is a list of 16-bit words. The function
  \<open>js\<close> writes an ASCII literal of the script as such a list.
\<close>

type_synonym jschar = "16 word"
type_synonym jsstring = "jschar list"

definition js :: "string \<Rightarrow> jsstring" where
  "js s = map (\<lambda>c. word_of_nat (of_char c)) s"

text \<open>The em dash U+2014 that the script uses in three of its messages.\<close>

definition emdash :: jschar where
  "emdash = 0x2014"

text \<open>
  White space and line terminators of ECMAScript: the characters that
  \<open>String.prototype.trim\<close> removes and that the class \<open>\s\<close> matches (\<open>\S\<close> is its
  complement).
\<close>

definition is_space :: "jschar \<Rightarrow> bool" where
  "is_space c \<longleftrightarrow>
     c = 0x09 \<or> c = 0x0A \<or> c = 0x0B \<or> c = 0x0C \<or> c = 0x0D \<or> c = 0x20 \<or> c = 0xA0 \<or>
     c = 0x1680 \<or> (0x2000 \<le> c \<and> c \<le> 0x200A) \<or> c = 0x2028 \<or> c = 0x2029 \<or>
     c = 0x202F \<or> c = 0x205F \<or> c = 0x3000 \<or> c = 0xFEFF"

definition trim :: "jsstring \<Rightarrow> jsstring" where
  "trim s = rev (dropWhile is_space (rev (dropWhile is_space s)))"

text \<open>\<open>s.includes(sub)\<close>: \<open>sub\<close> occurs in \<open>s\<close> as a contiguous run.\<close>

fun starts_with :: "jsstring \<Rightarrow> jsstring \<Rightarrow> bool" where
  "starts_with s [] = True"
| "starts_with [] (y # ys) = False"
| "starts_with (x # xs) (y # ys) = (x = y \<and> starts_with xs ys)"

fun includes_str :: "jsstring \<Rightarrow> jsstring \<Rightarrow> bool" where
  "includes_str [] sub = starts_with [] sub"
| "includes_str (x # xs) sub = (starts_with (x # xs) sub \<or> includes_str xs sub)"

subsection \<open>The email pattern\<close>

text \<open>
  The pattern \<open>/^\S+@\S+\.\S+$/\<close> is a sequence of items, each a character class taken
  once or one-or-more times, anchored at both ends of the input. \<open>test_pattern\<close> is the
  backtracking search of \<open>RegExp.prototype.test\<close> for patterns of this form: the empty
  pattern is the anchor \<open>$\<close>, so it accepts the end of the input only.
\<close>

datatype cclass = NonSpace | Lit jschar

datatype item = Once cclass | Many cclass

fun class_matches :: "cclass \<Rightarrow> jschar \<Rightarrow> bool" where
  "class_matches NonSpace c = (\<not> is_space c)"
| "class_matches (Lit d) c = (c = d)"

fun test_pattern :: "item list \<Rightarrow> jsstring \<Rightarrow> bool" where
  "test_pattern [] s = (s = [])"
| "test_pattern (Once k # p) [] = False"
| "test_pattern (Once k # p) (c # s) = (class_matches k c \<and> test_pattern p s)"
| "test_pattern (Many k # p) [] = False"
| "test_pattern (Many k # p) (c # s) =
     (class_matches k c \<and> (test_pattern (Many k # p) s \<or> test_pattern p s))"

definition email_pattern :: "item list" where
  "email_pattern = [Many NonSpace, Once (Lit 0x40), Many NonSpace, Once (Lit 0x2E), Many NonSpace]"

text \<open>
  The shape in the words of the specification: non-space characters, then \<open>@\<close>, then
  non-space characters, then a dot, then non-space characters, over the whole string.
\<close>

definition non_space_run :: "jsstring \<Rightarrow> bool" where
  "non_space_run s \<longleftrightarrow> s \<noteq> [] \<and> list_all (\<lambda>c. \<not> is_space c) s"

definition email_shape :: "jsstring \<Rightarrow> bool" where
  "email_shape s \<longleftrightarrow>
     (\<exists>a b c. s = a @ [0x40] @ b @ [0x2E] @ c \<and>
        non_space_run a \<and> non_space_run b \<and> non_space_run c)"

subsection \<open>encodeURIComponent\<close>

text \<open>
  \<open>encodeURIComponent\<close> keeps the unreserved characters
  \<open>A-Z a-z 0-9 - _ . ! ~ * ' ( )\<close>, and replaces every other code point by the
  percent-escapes of its UTF-8 bytes. A surrogate code unit that is not part of a pair
  raises URIError.
\<close>

datatype error = TypeError | URIError

definition unreserved :: "jschar \<Rightarrow> bool" where
  "unreserved c \<longleftrightarrow>
     (0x41 \<le> c \<and> c \<le> 0x5A) \<or> (0x61 \<le> c \<and> c \<le> 0x7A) \<or> (0x30 \<le> c \<and> c \<le> 0x39) \<or>
     c = 0x2D \<or> c = 0x5F \<or> c = 0x2E \<or> c = 0x21 \<or> c = 0x7E \<or> c = 0x2A \<or>
     c = 0x27 \<or> c = 0x28 \<or> c = 0x29"

definition hex_digit :: "nat \<Rightarrow> jschar" where
  "hex_digit d = (if d < 10 then word_of_nat (0x30 + d) else word_of_nat (0x41 + (d - 10)))"

definition percent :: "nat \<Rightarrow> jsstring" where
  "percent b = [0x25, hex_digit (b div 16), hex_digit (b mod 16)]"

definition utf8 :: "nat \<Rightarrow> nat list" where
  "utf8 cp =
     (if cp < 0x80 then [cp]
      else if cp < 0x800 then [0xC0 + cp div 64, 0x80 + cp mod 64]
      else if cp < 0x10000 then [0xE0 + cp div 4096, 0x80 + (cp div 64) mod 64, 0x80 + cp mod 64]
      else [0xF0 + cp div 262144, 0x80 + (cp div 4096) mod 64,
            0x80 + (cp div 64) mod 64, 0x80 + cp mod 64])"

definition is_lead :: "jschar \<Rightarrow> bool" where
  "is_lead c \<longleftrightarrow> 0xD800 \<le> c \<and> c \<le> 0xDBFF"

definition is_trail :: "jschar \<Rightarrow> bool" where
  "is_trail c \<longleftrightarrow> 0xDC00 \<le> c \<and> c \<le> 0xDFFF"

definition pair_code_point :: "jschar \<Rightarrow> jschar \<Rightarrow> nat" where
  "pair_code_point hi lo = (unat hi - 0xD800) * 0x400 + (unat lo - 0xDC00) + 0x10000"

definition escaped :: "nat \<Rightarrow> error + jsstring \<Rightarrow> error + jsstring" where
  "escaped cp rest =
     (case rest of Inl e \<Rightarrow> Inl e | Inr t \<Rightarrow> Inr (concat (map percent (utf8 cp)) @ t))"

fun encodeURIComponent :: "jsstring \<Rightarrow> error + jsstring" where
  "encodeURIComponent [] = Inr []"
| "encodeURIComponent (c # s) =
     (if unreserved c then
        (case encodeURIComponent s of Inl e \<Rightarrow> Inl e | Inr t \<Rightarrow> Inr (c # t))
      else if is_trail c then Inl URIError
      else if is_lead c then
        (case s of
           [] \<Rightarrow> Inl URIError
         | d # s' \<Rightarrow>
             if is_trail d then escaped (pair_code_point c d) (encodeURIComponent s')
             else Inl URIError)
      else escaped (unat c) (encodeURIComponent s))"

text \<open>A string is well formed when no surrogate stands alone.\<close>

fun well_formed :: "jsstring \<Rightarrow> bool" where
  "well_formed [] = True"
| "well_formed (c # s) =
     (if is_trail c then False
      else if is_lead c then (case s of [] \<Rightarrow> False | d # s' \<Rightarrow> is_trail d \<and> well_formed s')
      else well_formed s)"

section \<open>The page\<close>

text \<open>
  The script is one function that runs once over the loaded document: it looks elements up
  with \<open>document.querySelector\<close>, which answers \<open>null\<close> for a missing element, and
  attaches event handlers that later mutate the document. The page record holds the parts
  of the document that the script reads or writes; an element that \<open>querySelector\<close>
  may miss is an option. Reading a property of \<open>null\<close> raises TypeError, and the state
  reached so far stays as it is, so a result carries the state in both cases.
\<close>

datatype 's result = Done 's | Raised error 's

fun run :: "('s \<Rightarrow> 's result) list \<Rightarrow> 's \<Rightarrow> 's result" where
  "run [] s = Done s"
| "run (f # fs) s = (case f s of Done s' \<Rightarrow> run fs s' | Raised e s' \<Rightarrow> Raised e s')"

text \<open>
  An element that can hold the focus: \<open>focus_method\<close> says that it has a \<open>focus\<close>
  property (what \<open>closeModal\<close> tests), \<open>focusable\<close> that calling it moves the focus.
\<close>

record element =
  ident :: nat
  focus_method :: bool
  focusable :: bool

record toggle_el =
  aria_expanded :: "jsstring option"

record nav_el =
  nav_display :: jsstring
  nav_links :: nat

text \<open>
  A project card: its \<open>data-category\<close> attribute and the inline styles the script sets.
  \<open>transition_delay\<close> is the number of milliseconds of \<open>style.transitionDelay\<close>.
\<close>

record card =
  category :: "jsstring option"
  display :: jsstring
  opacity :: jsstring
  transition_delay :: nat

record filter_btn =
  data_filter :: "jsstring option"
  active :: bool

record open_btn =
  data_title :: "jsstring option"
  data_desc :: "jsstring option"
  data_image :: "jsstring option"

record modal_el =
  aria_hidden :: "jsstring option"

record image_el =
  src :: jsstring
  alt :: jsstring
  image_display :: jsstring

record status_el =
  status_text :: jsstring
  status_color :: jsstring

record field =
  fvalue :: jsstring
  fdefault :: jsstring

record form_el =
  action :: "jsstring option"

datatype listener =
    NavToggleClick | NavLinkClick nat | AnchorClick nat | SectionObserved nat
  | FilterClick nat | OpenProjectClick nat | ModalCloseClick | ModalClick
  | DocumentKeydown | CardKeydown nat | MailFallbackClick | FormSubmit

text \<open>
  The callbacks that the script hands to \<open>requestAnimationFrame\<close> (the two that set
  an opacity to 1: for one card in \<open>applyFilter\<close>, for all cards at the end of the
  script) and to \<open>setTimeout\<close> (the one that takes a card out of the layout); a card is
  named by its index in \<open>projects\<close>.
\<close>

datatype frame_callback = SetOpacityOne nat | LazyStart

datatype timer_callback = SetDisplayNone nat

text \<open>
  Besides the elements, the page keeps what the script does to its surroundings:
  \<open>listeners\<close> are the handlers attached so far (a link, section, button or card by its
  index in the list that \<open>querySelectorAll\<close> returns), \<open>frame_callbacks\<close> and
  \<open>timers\<close> the callbacks waiting with the time in milliseconds at which a timer is
  due, \<open>now\<close> the clock, \<open>fetched\<close> the addresses of the requests sent and
  \<open>location_href\<close> the address the window was last sent to. \<open>anchors\<close> and
  \<open>sections\<close> count the in-page links and the sections of the document; their
  handlers (smooth scrolling, highlighting the current link) are attached but not modelled
  further, and neither is the Enter key on a card, which clicks the card's button.
\<close>

record page =
  yearEl :: "jsstring option"
  navToggle :: "toggle_el option"
  nav :: "nav_el option"
  innerWidth :: nat
  anchors :: nat
  sections :: nat
  filterButtons :: "filter_btn list"
  projects :: "card list"
  openButtons :: "open_btn list"
  modal :: "modal_el option"
  modalTitle :: "jsstring option"
  modalDesc :: "jsstring option"
  modalImage :: "image_el option"
  modalClose :: "element option"
  lastFocused :: "element option"
  activeElement :: "element option"
  body_overflow :: jsstring
  form :: "form_el option"
  status :: "status_el option"
  mailFallback :: bool
  name_field :: "field option"
  email_field :: "field option"
  message_field :: "field option"
  location_href :: jsstring
  fetched :: "jsstring list"
  listeners :: "listener list"
  frame_callbacks :: "frame_callback list"
  timers :: "(nat \<times> timer_callback) list"
  now :: nat
  reducedMotion :: bool

text \<open>\<open>x || ''\<close> on an attribute that may be missing.\<close>

definition or_empty :: "jsstring option \<Rightarrow> jsstring" where
  "or_empty a = (case a of None \<Rightarrow> [] | Some v \<Rightarrow> v)"

section \<open>Navigation toggle\<close>

definition navToggleClick :: "page \<Rightarrow> page result" where
  "navToggleClick s =
     (case navToggle s of
        None \<Rightarrow> Raised TypeError s
      | Some t \<Rightarrow>
          let expanded = (aria_expanded t = Some (js ''true''));
              s1 = s\<lparr>navToggle :=
                     Some (t\<lparr>aria_expanded := Some (js (if expanded then ''false'' else ''true''))\<rparr>)\<rparr>
          in case nav s1 of
               None \<Rightarrow> Raised TypeError s1
             | Some n \<Rightarrow>
                 if nav_display n = js ''block''
                 then Done (s1\<lparr>nav := Some (n\<lparr>nav_display := []\<rparr>)\<rparr>)
                 else Done (s1\<lparr>nav := Some (n\<lparr>nav_display := js ''block''\<rparr>)\<rparr>))"

definition navLinkClick :: "page \<Rightarrow> page result" where
  "navLinkClick s =
     (if innerWidth s \<le> 980 then
        (case nav s of
           None \<Rightarrow> Raised TypeError s
         | Some n \<Rightarrow>
             if nav_display n = js ''block'' then
               (let s1 = s\<lparr>nav := Some (n\<lparr>nav_display := []\<rparr>)\<rparr>
                in case navToggle s1 of
                     None \<Rightarrow> Raised TypeError s1
                   | Some t \<Rightarrow> Done (s1\<lparr>navToggle := Some (t\<lparr>aria_expanded := Some (js ''false'')\<rparr>)\<rparr>))
             else Done s)
      else Done s)"

text \<open>
  What the toggle announces and what the panel's inline style says: the attribute is
  \<open>"true"\<close>, the display is \<open>block\<close>.
\<close>

definition toggle_expanded :: "page \<Rightarrow> bool" where
  "toggle_expanded s =
     (case navToggle s of None \<Rightarrow> False | Some t \<Rightarrow> aria_expanded t = Some (js ''true''))"

definition panel_shown :: "page \<Rightarrow> bool" where
  "panel_shown s = (case nav s of None \<Rightarrow> False | Some n \<Rightarrow> nav_display n = js ''block'')"

section \<open>Deferred callbacks\<close>

text \<open>
  \<open>requestAnimationFrame\<close> queues a callback for the next frame, \<open>setTimeout\<close> one for
  a later time; nothing in the script cancels either. \<open>animation_frame\<close> is the browser
  running the frame callbacks, \<open>elapse\<close> the clock advancing and the timers that are due
  firing, in the order they were set (every delay is the same and the clock never goes
  back, so that is the order of their due times).
\<close>

definition index_map :: "(nat \<Rightarrow> 'a \<Rightarrow> 'a) \<Rightarrow> 'a list \<Rightarrow> 'a list" where
  "index_map f xs = map (\<lambda>(i, x). f i x) (zip [0..<length xs] xs)"

fun run_frame_callback :: "frame_callback \<Rightarrow> page \<Rightarrow> page" where
  "run_frame_callback (SetOpacityOne i) s =
     s\<lparr>projects := (projects s)[i := (projects s ! i)\<lparr>opacity := js ''1''\<rparr>]\<rparr>"
| "run_frame_callback LazyStart s =
     s\<lparr>projects :=
         index_map (\<lambda>i el. el\<lparr>transition_delay := i * 45, opacity := js ''1''\<rparr>) (projects s)\<rparr>"

fun run_timer_callback :: "timer_callback \<Rightarrow> page \<Rightarrow> page" where
  "run_timer_callback (SetDisplayNone i) s =
     s\<lparr>projects := (projects s)[i := (projects s ! i)\<lparr>display := js ''none''\<rparr>]\<rparr>"

definition requestAnimationFrame :: "frame_callback \<Rightarrow> page \<Rightarrow> page" where
  "requestAnimationFrame cb s = s\<lparr>frame_callbacks := frame_callbacks s @ [cb]\<rparr>"

definition setTimeout :: "timer_callback \<Rightarrow> nat \<Rightarrow> page \<Rightarrow> page" where
  "setTimeout cb delay s = s\<lparr>timers := timers s @ [(now s + delay, cb)]\<rparr>"

definition animation_frame :: "page \<Rightarrow> page" where
  "animation_frame s = fold run_frame_callback (frame_callbacks s) (s\<lparr>frame_callbacks := []\<rparr>)"

definition elapse :: "nat \<Rightarrow> page \<Rightarrow> page" where
  "elapse d s =
     (let t = now s + d;
          due = filter (\<lambda>(at, cb). at \<le> t) (timers s);
          later = filter (\<lambda>(at, cb). \<not> at \<le> t) (timers s)
      in fold run_timer_callback (map snd due) (s\<lparr>now := t, timers := later\<rparr>))"

section \<open>Project filter\<close>

text \<open>
  The body of the \<open>forEach\<close> of \<open>applyFilter\<close> for the card at index \<open>i\<close>. The
  filter is \<open>btn.dataset.filter\<close>, which is undefined (\<open>None\<close>) on a button without
  the attribute.
\<close>

definition filter_matches :: "jsstring option \<Rightarrow> card \<Rightarrow> bool" where
  "filter_matches f p \<longleftrightarrow> f = Some (js ''all'') \<or> Some (or_empty (category p)) = f"

definition filter_card :: "jsstring option \<Rightarrow> nat \<Rightarrow> page \<Rightarrow> page" where
  "filter_card f i s =
     (let p = projects s ! i in
      if filter_matches f p then
        requestAnimationFrame (SetOpacityOne i)
          (s\<lparr>projects := (projects s)[i := p\<lparr>display := []\<rparr>]\<rparr>)
      else
        setTimeout (SetDisplayNone i) 180
          (s\<lparr>projects := (projects s)[i := p\<lparr>opacity := js ''0''\<rparr>]\<rparr>))"

definition applyFilter :: "jsstring option \<Rightarrow> page \<Rightarrow> page" where
  "applyFilter f s = fold (filter_card f) [0..<length (projects s)] s"

text \<open>
  The click handler of the filter button at index \<open>k\<close>; it is attached to the buttons
  that exist, so \<open>k\<close> is below the number of buttons.
\<close>

definition filterClick :: "nat \<Rightarrow> page \<Rightarrow> page" where
  "filterClick k s =
     (let bs = map (\<lambda>b. b\<lparr>active := False\<rparr>) (filterButtons s);
          bs' = bs[k := (bs ! k)\<lparr>active := True\<rparr>]
      in applyFilter (data_filter (bs' ! k)) (s\<lparr>filterButtons := bs'\<rparr>))"


section \<open>Project modal\<close>

text \<open>
  \<open>el.focus()\<close>: the focus moves to the element when it can take it, and stays where it
  is otherwise.
\<close>

definition focus :: "element \<Rightarrow> page \<Rightarrow> page" where
  "focus el s = (if focusable el then s\<lparr>activeElement := Some el\<rparr> else s)"

text \<open>
  The argument of \<open>openModal\<close>: each property may be undefined, and the destructuring
  defaults replace an undefined one by the empty string.
\<close>

record modal_content =
  title :: "jsstring option"
  desc :: "jsstring option"
  image :: "jsstring option"

definition save_focus :: "page \<Rightarrow> page result" where
  "save_focus s = Done (s\<lparr>lastFocused := activeElement s\<rparr>)"

definition set_title :: "jsstring \<Rightarrow> page \<Rightarrow> page result" where
  "set_title t s =
     (case modalTitle s of None \<Rightarrow> Raised TypeError s | Some _ \<Rightarrow> Done (s\<lparr>modalTitle := Some t\<rparr>))"

definition set_desc :: "jsstring \<Rightarrow> page \<Rightarrow> page result" where
  "set_desc d s =
     (case modalDesc s of None \<Rightarrow> Raised TypeError s | Some _ \<Rightarrow> Done (s\<lparr>modalDesc := Some d\<rparr>))"

definition set_image :: "jsstring \<Rightarrow> jsstring \<Rightarrow> page \<Rightarrow> page result" where
  "set_image i t s =
     (case modalImage s of
        None \<Rightarrow> Raised TypeError s
      | Some img \<Rightarrow>
          if i \<noteq> [] then Done (s\<lparr>modalImage := Some (img\<lparr>src := i, alt := t, image_display := []\<rparr>)\<rparr>)
          else Done (s\<lparr>modalImage := Some (img\<lparr>image_display := js ''none''\<rparr>)\<rparr>))"

definition set_hidden :: "jsstring \<Rightarrow> page \<Rightarrow> page result" where
  "set_hidden v s =
     (case modal s of
        None \<Rightarrow> Raised TypeError s
      | Some m \<Rightarrow> Done (s\<lparr>modal := Some (m\<lparr>aria_hidden := Some v\<rparr>)\<rparr>))"

definition focus_close :: "page \<Rightarrow> page result" where
  "focus_close s =
     (case modalClose s of
        None \<Rightarrow> Raised TypeError s
      | Some c \<Rightarrow> if focus_method c then Done (focus c s) else Raised TypeError s)"

definition set_overflow :: "jsstring \<Rightarrow> page \<Rightarrow> page result" where
  "set_overflow v s = Done (s\<lparr>body_overflow := v\<rparr>)"

definition openModal :: "modal_content \<Rightarrow> page \<Rightarrow> page result" where
  "openModal c =
     run [save_focus,
          set_title (or_empty (title c)),
          set_desc (or_empty (desc c)),
          set_image (or_empty (image c)) (or_empty (title c)),
          set_hidden (js ''false''),
          focus_close,
          set_overflow (js ''hidden'')]"

definition restore_focus :: "page \<Rightarrow> page result" where
  "restore_focus s =
     (case lastFocused s of
        None \<Rightarrow> Done s
      | Some el \<Rightarrow> if focus_method el then Done (focus el s) else Done s)"

definition closeModal :: "page \<Rightarrow> page result" where
  "closeModal = run [set_hidden (js ''true''), restore_focus, set_overflow []]"

text \<open>The click handler of the project button at index \<open>k\<close>, one of the buttons that exist.\<close>

definition openProjectClick :: "nat \<Rightarrow> page \<Rightarrow> page result" where
  "openProjectClick k s =
     (let btn = openButtons s ! k
      in openModal \<lparr>title = Some (or_empty (data_title btn)),
                    desc = Some (or_empty (data_desc btn)),
                    image = Some (or_empty (data_image btn))\<rparr> s)"

text \<open>The click handler of the modal container; \<open>on_modal\<close> is \<open>e.target === modal\<close>.\<close>

definition modalClick :: "bool \<Rightarrow> page \<Rightarrow> page result" where
  "modalClick on_modal s = (if on_modal then closeModal s else Done s)"

subsection \<open>Keyboard handler\<close>

record key_event =
  key :: jsstring
  shiftKey :: bool
  defaultPrevented :: bool

definition modal_open :: "page \<Rightarrow> bool result" where
  "modal_open s =
     (case modal s of
        None \<Rightarrow> Raised TypeError False
      | Some m \<Rightarrow> Done (aria_hidden m = Some (js ''false'')))"

definition with_event :: "key_event \<Rightarrow> page result \<Rightarrow> (key_event \<times> page) result" where
  "with_event e r = (case r of Done s \<Rightarrow> Done (e, s) | Raised x s \<Rightarrow> Raised x (e, s))"

definition escape_branch :: "key_event \<times> page \<Rightarrow> (key_event \<times> page) result" where
  "escape_branch es =
     (case es of (e, s) \<Rightarrow>
        if key e = js ''Escape'' then
          (case modal_open s of
             Raised x _ \<Rightarrow> Raised x (e, s)
           | Done b \<Rightarrow> if b then with_event e (closeModal s) else Done (e, s))
        else Done (e, s))"

definition tab_branch :: "key_event \<times> page \<Rightarrow> (key_event \<times> page) result" where
  "tab_branch es =
     (case es of (e, s) \<Rightarrow>
        if key e = js ''Tab'' then
          (case modal_open s of
             Raised x _ \<Rightarrow> Raised x (e, s)
           | Done b \<Rightarrow>
               if b then
                 (if activeElement s = modalClose s \<and> \<not> shiftKey e
                  then with_event (e\<lparr>defaultPrevented := True\<rparr>) (focus_close s)
                  else Done (e, s))
               else Done (e, s))
        else Done (e, s))"

definition documentKeydown :: "key_event \<Rightarrow> page \<Rightarrow> (key_event \<times> page) result" where
  "documentKeydown e s = run [escape_branch, tab_branch] (e, s)"

section \<open>Contact form\<close>

text \<open>
  What \<open>fetch\<close> and \<open>resp.json()\<close> give back. The promise of \<open>fetch\<close> is rejected
  (\<open>NetworkError\<close>) or fulfilled with a response, whose \<open>ok\<close> flag is the success status.
  The body of a response is \<open>NoJson\<close> when \<open>resp.json()\<close> is rejected, and otherwise
  \<open>Json err\<close> with the text of its \<open>error\<close> property, \<open>None\<close> when it has none.
\<close>

datatype body = NoJson | Json "jsstring option"

datatype fetch_outcome = NetworkError | Response bool body

definition field_value :: "field option \<Rightarrow> error + jsstring" where
  "field_value f = (case f of None \<Rightarrow> Inl TypeError | Some x \<Rightarrow> Inr (trim (fvalue x)))"

definition set_status :: "jsstring \<Rightarrow> jsstring \<Rightarrow> page \<Rightarrow> page result" where
  "set_status txt col s =
     (case status s of
        None \<Rightarrow> Raised TypeError s
      | Some st \<Rightarrow> Done (s\<lparr>status := Some (st\<lparr>status_text := txt, status_color := col\<rparr>)\<rparr>))"

definition clear_status :: "page \<Rightarrow> page result" where
  "clear_status s =
     (case status s of
        None \<Rightarrow> Raised TypeError s
      | Some st \<Rightarrow> Done (s\<lparr>status := Some (st\<lparr>status_text := []\<rparr>)\<rparr>))"

definition mail_body :: "jsstring \<Rightarrow> jsstring \<Rightarrow> jsstring \<Rightarrow> jsstring" where
  "mail_body name email message = message @ [0x0A, 0x0A, emdash, 0x20] @ name @ [0x0A] @ email"

definition mailto :: "jsstring \<Rightarrow> jsstring \<Rightarrow> jsstring" where
  "mailto subject body =
     js ''mailto:monishp2212@gmail.com?subject='' @ subject @ js ''&body='' @ body"

definition navigate_mailto :: "jsstring \<Rightarrow> jsstring \<Rightarrow> page \<Rightarrow> page result" where
  "navigate_mailto subject_text body_text s =
     (case encodeURIComponent subject_text of
        Inl x \<Rightarrow> Raised x s
      | Inr subject \<Rightarrow>
          (case encodeURIComponent body_text of
             Inl x \<Rightarrow> Raised x s
           | Inr body \<Rightarrow> Done (s\<lparr>location_href := mailto subject body\<rparr>)))"

definition mailFallbackClick :: "page \<Rightarrow> page result" where
  "mailFallbackClick s =
     (case field_value (name_field s) of Inl x \<Rightarrow> Raised x s | Inr name \<Rightarrow>
      case field_value (email_field s) of Inl x \<Rightarrow> Raised x s | Inr email \<Rightarrow>
      case field_value (message_field s) of Inl x \<Rightarrow> Raised x s | Inr message \<Rightarrow>
        navigate_mailto (js ''Contact from '' @ (if name = [] then js ''Website'' else name))
          (mail_body name email message) s)"

text \<open>\<open>form.reset()\<close> gives every control of the form its default value back.\<close>

definition reset_field :: "field option \<Rightarrow> field option" where
  "reset_field f = map_option (\<lambda>x. x\<lparr>fvalue := fdefault x\<rparr>) f"

definition form_reset :: "page \<Rightarrow> page result" where
  "form_reset s =
     Done (s\<lparr>name_field := reset_field (name_field s),
            email_field := reset_field (email_field s),
            message_field := reset_field (message_field s)\<rparr>)"

definition failure_text :: "body \<Rightarrow> jsstring" where
  "failure_text b =
     (case b of
        Json (Some m) \<Rightarrow>
          if m \<noteq> [] then m
          else js ''Submission failed '' @ [emdash] @ js '' try the email fallback.''
      | _ \<Rightarrow> js ''Submission failed '' @ [emdash] @ js '' try the email fallback.'')"

text \<open>
  The \<open>try\<close> block of the submit handler once the request has been sent; a rejected
  \<open>fetch\<close> lands in its \<open>catch\<close>.
\<close>

definition after_fetch :: "fetch_outcome \<Rightarrow> page \<Rightarrow> page result" where
  "after_fetch r s =
     (case r of
        Response ok b \<Rightarrow>
          if ok then
            run [set_status (js ''Thanks '' @ [emdash] @ js '' message sent.'') (js ''limegreen''),
                 form_reset] s
          else set_status (failure_text b) (js ''tomato'') s
      | NetworkError \<Rightarrow>
          set_status (js ''Network error '' @ [emdash] @ js '' please use the email fallback.'')
            (js ''tomato'') s)"

definition send_request :: "jsstring \<Rightarrow> page \<Rightarrow> page result" where
  "send_request url s = Done (s\<lparr>fetched := fetched s @ [url]\<rparr>)"

text \<open>
  The submit handler. \<open>r\<close> is what the endpoint answers if the handler sends the request;
  \<open>fetched\<close> records the requests sent and \<open>location_href\<close> the navigation, so a
  submission that is blocked leaves both as they were. The handler starts by cancelling the
  browser's own submission of the form (\<open>e.preventDefault()\<close>), which happens on every
  path and touches nothing of the page. The three fields are the controls of the form.
\<close>

definition formSubmit :: "fetch_outcome \<Rightarrow> page \<Rightarrow> page result" where
  "formSubmit r s0 =
     (case clear_status s0 of Raised x s \<Rightarrow> Raised x s | Done s \<Rightarrow>
      case field_value (name_field s) of Inl x \<Rightarrow> Raised x s | Inr name \<Rightarrow>
      case field_value (email_field s) of Inl x \<Rightarrow> Raised x s | Inr email \<Rightarrow>
      case field_value (message_field s) of Inl x \<Rightarrow> Raised x s | Inr message \<Rightarrow>
        if name = [] \<or> email = [] \<or> message = [] then
          set_status (js ''Please complete all fields.'') (js ''tomato'') s
        else if \<not> test_pattern email_pattern email then
          set_status (js ''Please enter a valid email address.'') (js ''tomato'') s
        else
          (case form s of
             None \<Rightarrow> Raised TypeError s
           | Some fm \<Rightarrow>
               let url = or_empty (action fm) in
               if includes_str url (js ''formspree.io'') then
                 run [set_status (js ''Sending...'') (js ''var(--muted)''),
                      send_request url,
                      after_fetch r] s
               else
                 navigate_mailto (js ''Contact from '' @ name) (mail_body name email message) s))"

section \<open>Initialisation\<close>

text \<open>
  The body of the script, in its order. A guarded \<open>addEventListener\<close> is skipped for a
  missing element, an unguarded one raises TypeError there and the rest of the script does
  not run. \<open>year\<close> is the text of \<open>new Date().getFullYear()\<close>.
\<close>

definition attach :: "listener list \<Rightarrow> page \<Rightarrow> page result" where
  "attach ls s = Done (s\<lparr>listeners := listeners s @ ls\<rparr>)"

definition fill_year :: "jsstring \<Rightarrow> page \<Rightarrow> page result" where
  "fill_year year s = (case yearEl s of None \<Rightarrow> Done s | Some _ \<Rightarrow> Done (s\<lparr>yearEl := Some year\<rparr>))"

definition attach_nav_toggle :: "page \<Rightarrow> page result" where
  "attach_nav_toggle s = (case navToggle s of None \<Rightarrow> Done s | Some _ \<Rightarrow> attach [NavToggleClick] s)"

definition attach_nav_links :: "page \<Rightarrow> page result" where
  "attach_nav_links s =
     attach (map NavLinkClick [0..<(case nav s of None \<Rightarrow> 0 | Some n \<Rightarrow> nav_links n)]) s"

definition attach_anchors :: "page \<Rightarrow> page result" where
  "attach_anchors s = attach (map AnchorClick [0..<anchors s]) s"

definition observe_sections :: "page \<Rightarrow> page result" where
  "observe_sections s = attach (map SectionObserved [0..<sections s]) s"

definition attach_filters :: "page \<Rightarrow> page result" where
  "attach_filters s = attach (map FilterClick [0..<length (filterButtons s)]) s"

definition attach_open_buttons :: "page \<Rightarrow> page result" where
  "attach_open_buttons s = attach (map OpenProjectClick [0..<length (openButtons s)]) s"

definition attach_modal_close :: "page \<Rightarrow> page result" where
  "attach_modal_close s = (case modalClose s of None \<Rightarrow> Done s | Some _ \<Rightarrow> attach [ModalCloseClick] s)"

definition attach_modal_click :: "page \<Rightarrow> page result" where
  "attach_modal_click s = (case modal s of None \<Rightarrow> Raised TypeError s | Some _ \<Rightarrow> attach [ModalClick] s)"

definition attach_keydown :: "page \<Rightarrow> page result" where
  "attach_keydown s = attach [DocumentKeydown] s"

definition attach_card_keys :: "page \<Rightarrow> page result" where
  "attach_card_keys s = attach (map CardKeydown [0..<length (projects s)]) s"

definition attach_mail_fallback :: "page \<Rightarrow> page result" where
  "attach_mail_fallback s = (if mailFallback s then attach [MailFallbackClick] s else Done s)"

definition attach_form :: "page \<Rightarrow> page result" where
  "attach_form s = (case form s of None \<Rightarrow> Done s | Some _ \<Rightarrow> attach [FormSubmit] s)"

definition lazy_start :: "page \<Rightarrow> page result" where
  "lazy_start s = (if \<not> reducedMotion s then Done (requestAnimationFrame LazyStart s) else Done s)"

definition initialise :: "jsstring \<Rightarrow> page \<Rightarrow> page result" where
  "initialise year =
     run [fill_year year, attach_nav_toggle, attach_nav_links, attach_anchors, observe_sections,
          attach_filters, attach_open_buttons, attach_modal_close, attach_modal_click,
          attach_keydown, attach_card_keys, attach_mail_fallback, attach_form, lazy_start]"

section \<open>Sample pages\<close>

text \<open>
  A page with every element the script looks for, as the markup would give it: the
  navigation collapsed, two filter buttons, two project cards with their buttons, the modal
  hidden, and a filled contact form that posts to a remote endpoint. The body has the focus
  (nothing else does) and cannot take it back once it has moved.
\<close>

definition body_el :: element where
  "body_el = \<lparr>ident = 0, focus_method = True, focusable = False\<rparr>"

definition close_el :: element where
  "close_el = \<lparr>ident = 1, focus_method = True, focusable = True\<rparr>"

definition button_el :: element where
  "button_el = \<lparr>ident = 2, focus_method = True, focusable = True\<rparr>"

definition web_card :: card where
  "web_card = \<lparr>category = Some (js ''web''), display = [], opacity = js ''1'', transition_delay = 0\<rparr>"

definition design_card :: card where
  "design_card =
     \<lparr>category = Some (js ''design''), display = [], opacity = js ''1'', transition_delay = 0\<rparr>"

definition sample_page :: page where
  "sample_page =
     \<lparr>yearEl = Some [],
      navToggle = Some \<lparr>aria_expanded = Some (js ''false'')\<rparr>,
      nav = Some \<lparr>nav_display = [], nav_links = 2\<rparr>,
      innerWidth = 1280,
      anchors = 3,
      sections = 2,
      filterButtons = [\<lparr>data_filter = Some (js ''all''), active = True\<rparr>,
                       \<lparr>data_filter = Some (js ''web''), active = False\<rparr>],
      projects = [web_card, design_card],
      openButtons = [\<lparr>data_title = Some (js ''Shop''), data_desc = Some (js ''A shop''),
                      data_image = Some (js ''shop.png'')\<rparr>,
                     \<lparr>data_title = Some (js ''Logo''), data_desc = Some (js ''A logo''),
                      data_image = None\<rparr>],
      modal = Some \<lparr>aria_hidden = Some (js ''true'')\<rparr>,
      modalTitle = Some [],
      modalDesc = Some [],
      modalImage = Some \<lparr>src = [], alt = [], image_display = []\<rparr>,
      modalClose = Some close_el,
      lastFocused = None,
      activeElement = Some body_el,
      body_overflow = [],
      form = Some \<lparr>action = Some (js ''https://formspree.io/f/abc'')\<rparr>,
      status = Some \<lparr>status_text = [], status_color = []\<rparr>,
      mailFallback = True,
      name_field = Some \<lparr>fvalue = js ''Ada'', fdefault = []\<rparr>,
      email_field = Some \<lparr>fvalue = js '' ada@example.org'', fdefault = []\<rparr>,
      message_field = Some \<lparr>fvalue = js ''Hello'', fdefault = []\<rparr>,
      location_href = [],
      fetched = [],
      listeners = [],
      frame_callbacks = [],
      timers = [],
      now = 0,
      reducedMotion = False\<rparr>"

text \<open>
  The sample page once the button of its second project, which has no image, has been
  clicked: the modal is open, the close control has the focus, and the body is the element
  saved for the close.
\<close>

definition logo_open_page :: page where
  "logo_open_page =
     sample_page
       \<lparr>lastFocused := Some body_el,
        modalTitle := Some (js ''Logo''),
        modalDesc := Some (js ''A logo''),
        modalImage := Some \<lparr>src = [], alt = [], image_display = js ''none''\<rparr>,
        modal := Some \<lparr>aria_hidden = Some (js ''false'')\<rparr>,
        activeElement := Some close_el,
        body_overflow := js ''hidden''\<rparr>"

section \<open>Facts about strings\<close>

lemma unat_js_char: "unat (word_of_nat (of_char c) :: 16 word) = of_char c"
proof -
  have "(of_char c :: nat) < 65536"
    by (rule order_less_trans [OF nat_of_char_less_256]) simp
  then have "(of_char c :: nat) mod 65536 = of_char c" by (rule mod_less)
  then show ?thesis by (simp add: unat_of_nat)
qed

text \<open>Two literals of the script are the same string only when they are spelled the same.\<close>

lemma js_inject: "js a = js b \<longleftrightarrow> a = b"
proof
  assume h: "js a = js b"
  have "inj (\<lambda>c. word_of_nat (of_char c) :: 16 word)"
  proof (rule injI)
    fix x y :: char
    assume "(word_of_nat (of_char x) :: 16 word) = word_of_nat (of_char y)"
    then have "unat (word_of_nat (of_char x) :: 16 word) = unat (word_of_nat (of_char y) :: 16 word)"
      by simp
    then have "(of_char x :: nat) = of_char y" by (simp only: unat_js_char)
    then show "x = y" by simp
  qed
  with h show "a = b" unfolding js_def by (simp add: inj_map_eq_map)
qed simp

lemma js_empty: "js a = [] \<longleftrightarrow> a = []" "[] = js a \<longleftrightarrow> a = []"
  by (auto simp: js_def)

subsection \<open>The email pattern accepts the shape of the specification, and nothing else\<close>

lemma many_split:
  "test_pattern (Many k # p) s \<longleftrightarrow>
     (\<exists>a b. s = a @ b \<and> a \<noteq> [] \<and> list_all (class_matches k) a \<and> test_pattern p b)"
proof (induction s)
  case Nil
  then show ?case by simp
next
  case (Cons c s)
  show ?case
  proof
    assume "test_pattern (Many k # p) (c # s)"
    then have m: "class_matches k c" and d: "test_pattern (Many k # p) s \<or> test_pattern p s"
      by simp_all
    from d show "\<exists>a b. c # s = a @ b \<and> a \<noteq> [] \<and> list_all (class_matches k) a \<and> test_pattern p b"
    proof
      assume "test_pattern (Many k # p) s"
      with Cons.IH obtain a b
        where "s = a @ b" "a \<noteq> []" "list_all (class_matches k) a" "test_pattern p b"
        by blast
      with m have "c # s = (c # a) @ b \<and> c # a \<noteq> [] \<and>
          list_all (class_matches k) (c # a) \<and> test_pattern p b"
        by simp
      then show ?thesis by blast
    next
      assume "test_pattern p s"
      with m have "c # s = [c] @ s \<and> [c] \<noteq> [] \<and>
          list_all (class_matches k) [c] \<and> test_pattern p s"
        by simp
      then show ?thesis by blast
    qed
  next
    assume "\<exists>a b. c # s = a @ b \<and> a \<noteq> [] \<and> list_all (class_matches k) a \<and> test_pattern p b"
    then obtain a b
      where ab: "c # s = a @ b" "a \<noteq> []" "list_all (class_matches k) a" "test_pattern p b"
      by blast
    then obtain a' where a: "a = c # a'" by (cases a) auto
    with ab have s: "s = a' @ b" and m: "class_matches k c" and r: "list_all (class_matches k) a'"
      by simp_all
    show "test_pattern (Many k # p) (c # s)"
    proof (cases "a' = []")
      case True
      with s ab m show ?thesis by simp
    next
      case False
      with s r ab have "test_pattern (Many k # p) s" using Cons.IH by blast
      with m show ?thesis by simp
    qed
  qed
qed

lemma once_lit:
  "test_pattern (Once (Lit d) # p) s \<longleftrightarrow> (\<exists>b. s = [d] @ b \<and> test_pattern p b)"
  by (cases s) auto

lemma class_NonSpace: "list_all (class_matches NonSpace) a = list_all (\<lambda>c. \<not> is_space c) a"
  by (induction a) auto

lemma many_non_space:
  "test_pattern (Many NonSpace # p) s \<longleftrightarrow>
     (\<exists>a b. s = a @ b \<and> non_space_run a \<and> test_pattern p b)"
  by (simp only: many_split class_NonSpace non_space_run_def conj_assoc)

lemma email_pattern_shape: "test_pattern email_pattern s \<longleftrightarrow> email_shape s"
proof -
  have e3: "test_pattern [Many NonSpace] t \<longleftrightarrow> non_space_run t" for t
    by (simp only: many_non_space test_pattern.simps(1)) simp
  have e2: "test_pattern [Once (Lit 0x2E), Many NonSpace] t \<longleftrightarrow>
      (\<exists>c. t = [0x2E] @ c \<and> non_space_run c)" for t
    by (simp only: once_lit e3)
  have e1: "test_pattern [Many NonSpace, Once (Lit 0x2E), Many NonSpace] t \<longleftrightarrow>
      (\<exists>b c. t = b @ [0x2E] @ c \<and> non_space_run b \<and> non_space_run c)" for t
    by (simp only: many_non_space e2) blast
  have e0: "test_pattern [Once (Lit 0x40), Many NonSpace, Once (Lit 0x2E), Many NonSpace] t \<longleftrightarrow>
      (\<exists>b c. t = [0x40] @ b @ [0x2E] @ c \<and> non_space_run b \<and> non_space_run c)" for t
    by (simp only: once_lit e1) blast
  show ?thesis
    unfolding email_pattern_def email_shape_def
    by (simp only: many_non_space e0) blast
qed

subsection \<open>encodeURIComponent fails on lone surrogates only\<close>

lemma unreserved_not_surrogate: "unreserved c \<Longrightarrow> \<not> is_trail c \<and> \<not> is_lead c"
  unfolding unreserved_def is_trail_def is_lead_def word_le_nat_alt
  by auto

lemma escaped_Inr: "escaped cp (Inr t) = Inr (concat (map percent (utf8 cp)) @ t)"
  by (simp add: escaped_def)

lemma encode_ok: "well_formed s \<Longrightarrow> \<exists>t. encodeURIComponent s = Inr t"
proof (induction s rule: well_formed.induct)
  case 1
  show ?case by simp
next
  case (2 c s)
  from "2.prems" have nt: "\<not> is_trail c" by (simp split: if_splits)
  show ?case
  proof (cases "is_lead c")
    case True
    then have nu: "\<not> unreserved c" using unreserved_not_surrogate by blast
    from "2.prems" nt True obtain d s'
      where s: "s = d # s'" and d: "is_trail d" and w: "well_formed s'"
      by (cases s) simp_all
    from "2.IH"(1) [OF nt True s] w obtain t where "encodeURIComponent s' = Inr t" by blast
    with nu nt True s d show ?thesis by (simp add: escaped_Inr)
  next
    case False
    with "2.prems" nt have "well_formed s" by simp
    with "2.IH"(2) [OF nt False] obtain t where "encodeURIComponent s = Inr t" by blast
    with nt False show ?thesis by (simp add: escaped_Inr)
  qed
qed

lemma well_formed_append: "well_formed a \<Longrightarrow> well_formed b \<Longrightarrow> well_formed (a @ b)"
proof (induction a rule: well_formed.induct)
  case 1
  then show ?case by simp
next
  case (2 c s)
  from "2.prems" have nt: "\<not> is_trail c" by (simp split: if_splits)
  show ?case
  proof (cases "is_lead c")
    case True
    from "2.prems" nt True obtain d s'
      where s: "s = d # s'" and d: "is_trail d" and w: "well_formed s'"
      by (cases s) simp_all
    from "2.IH"(1) [OF nt True s w "2.prems"(2)] nt True s d show ?thesis by simp
  next
    case False
    with "2.prems" nt have "well_formed s" by simp
    from "2.IH"(2) [OF nt False this "2.prems"(2)] nt False show ?thesis by simp
  qed
qed

lemma well_formed_js: "well_formed (js a)"
proof (induction a)
  case Nil
  show ?case by (simp add: js_def)
next
  case (Cons x a)
  have u: "unat (word_of_nat (of_char x) :: 16 word) < 256"
    by (simp only: unat_js_char nat_of_char_less_256)
  have "\<not> is_trail (word_of_nat (of_char x))" "\<not> is_lead (word_of_nat (of_char x))"
    using u unfolding is_trail_def is_lead_def word_le_nat_alt
    by (simp_all del: unsigned_of_nat)
  with Cons show ?case by (simp add: js_def)
qed

section \<open>Initialisation and missing elements\<close>

lemmas init_steps = fill_year_def attach_nav_toggle_def attach_nav_links_def attach_anchors_def
  observe_sections_def attach_filters_def attach_open_buttons_def attach_modal_close_def
  attach_modal_click_def attach_keydown_def attach_card_keys_def attach_mail_fallback_def
  attach_form_def lazy_start_def attach_def

text \<open>
  Without the modal container the script stops at the unguarded
  \<open>modal.addEventListener\<close>: whatever else the page has, the keyboard handler, the
  mail fallback and the form handler are never attached.
\<close>

lemma initialise_modal_missing:
  assumes "modal s = None"
  shows "\<exists>s'. initialise year s = Raised TypeError s' \<and>
           (DocumentKeydown \<in> set (listeners s') \<longleftrightarrow> DocumentKeydown \<in> set (listeners s)) \<and>
           (MailFallbackClick \<in> set (listeners s') \<longleftrightarrow> MailFallbackClick \<in> set (listeners s)) \<and>
           (FormSubmit \<in> set (listeners s') \<longleftrightarrow> FormSubmit \<in> set (listeners s))"
  using assms
  by (auto simp add: initialise_def init_steps split: option.splits)

text \<open>
  With the modal container present the script runs to its end on every page, and a guarded
  handler is attached exactly when its element exists.
\<close>

lemma initialise_tolerates_other_elements:
  assumes "modal s = Some m" and "listeners s = []"
  shows "\<exists>s'. initialise year s = Done s' \<and>
           (NavToggleClick \<in> set (listeners s') \<longleftrightarrow> navToggle s \<noteq> None) \<and>
           (ModalCloseClick \<in> set (listeners s') \<longleftrightarrow> modalClose s \<noteq> None) \<and>
           (FormSubmit \<in> set (listeners s') \<longleftrightarrow> form s \<noteq> None) \<and>
           (MailFallbackClick \<in> set (listeners s') \<longleftrightarrow> mailFallback s) \<and>
           ModalClick \<in> set (listeners s') \<and> DocumentKeydown \<in> set (listeners s')"
  using assms
  by (auto simp add: initialise_def init_steps requestAnimationFrame_def split: option.splits)

text \<open>
  C1. The specification asks that no missing element be fatal, the modal container among
  them. On the sample page without its modal container the script raises TypeError after
  the close control's listener, and leaves the page without keyboard, card, mail-fallback
  and form handlers.
\<close>

theorem initialise_without_modal_raises:
  "initialise (js ''2026'') (sample_page\<lparr>modal := None\<rparr>) =
     Raised TypeError
       (sample_page\<lparr>modal := None, yearEl := Some (js ''2026''),
          listeners := [NavToggleClick, NavLinkClick 0, NavLinkClick 1, AnchorClick 0,
            AnchorClick 1, AnchorClick 2, SectionObserved 0, SectionObserved 1,
            FilterClick 0, FilterClick 1, OpenProjectClick 0, OpenProjectClick 1,
            ModalCloseClick]\<rparr>)"
  by (simp add: initialise_def init_steps sample_page_def upt_rec)

section \<open>Properties of the navigation toggle\<close>

text \<open>
  C8, as the code has it. A click inverts \<open>aria-expanded\<close> and, on its own, switches the
  panel's inline display between \<open>block\<close> and the empty string, from the display's own
  previous value and not from the new attribute. So the attribute and the display agree
  after the click exactly when they agreed before it.
\<close>

theorem navToggleClick_toggles_independently:
  assumes "navToggle s = Some t" and "nav s = Some n"
  shows "\<exists>s'. navToggleClick s = Done s' \<and>
           navToggle s' =
             Some (t\<lparr>aria_expanded :=
               Some (js (if aria_expanded t = Some (js ''true'') then ''false'' else ''true''))\<rparr>) \<and>
           nav s' =
             Some (n\<lparr>nav_display := (if nav_display n = js ''block'' then [] else js ''block'')\<rparr>) \<and>
           (toggle_expanded s' \<longleftrightarrow> \<not> toggle_expanded s) \<and>
           (panel_shown s' \<longleftrightarrow> \<not> panel_shown s) \<and>
           ((toggle_expanded s' \<longleftrightarrow> panel_shown s') \<longleftrightarrow> (toggle_expanded s \<longleftrightarrow> panel_shown s))"
proof -
  define s' where "s' =
    s\<lparr>navToggle := Some (t\<lparr>aria_expanded :=
         Some (js (if aria_expanded t = Some (js ''true'') then ''false'' else ''true''))\<rparr>),
      nav := Some (n\<lparr>nav_display := (if nav_display n = js ''block'' then [] else js ''block'')\<rparr>)\<rparr>"
  from assms have r: "navToggleClick s = Done s'"
    by (simp add: navToggleClick_def Let_def s'_def)
  from assms have e: "toggle_expanded s' \<longleftrightarrow> \<not> toggle_expanded s"
    by (simp add: toggle_expanded_def s'_def js_inject)
  from assms have p: "panel_shown s' \<longleftrightarrow> \<not> panel_shown s"
    by (simp add: panel_shown_def s'_def js_empty)
  have a: "navToggle s' =
      Some (t\<lparr>aria_expanded :=
        Some (js (if aria_expanded t = Some (js ''true'') then ''false'' else ''true''))\<rparr>)"
    and d: "nav s' =
      Some (n\<lparr>nav_display := (if nav_display n = js ''block'' then [] else js ''block'')\<rparr>)"
    by (simp_all add: s'_def)
  from r a d e p show ?thesis by blast
qed

theorem navToggleClick_toggles_independently_witness:
  "\<exists>s'. navToggleClick sample_page = Done s' \<and>
     navToggle s' = Some \<lparr>aria_expanded = Some (js ''true'')\<rparr> \<and>
     nav s' = Some \<lparr>nav_display = js ''block'', nav_links = 2\<rparr> \<and>
     (toggle_expanded s' \<longleftrightarrow> \<not> toggle_expanded sample_page) \<and>
     (panel_shown s' \<longleftrightarrow> \<not> panel_shown sample_page) \<and>
     ((toggle_expanded s' \<longleftrightarrow> panel_shown s') \<longleftrightarrow>
      (toggle_expanded sample_page \<longleftrightarrow> panel_shown sample_page))"
proof -
  have t: "navToggle sample_page = Some \<lparr>aria_expanded = Some (js ''false'')\<rparr>"
    by (simp add: sample_page_def)
  have n: "nav sample_page = Some \<lparr>nav_display = [], nav_links = 2\<rparr>"
    by (simp add: sample_page_def)
  from navToggleClick_toggles_independently [OF t n] show ?thesis
    by (simp add: js_inject js_empty)
qed

text \<open>
  C8, as the specification states it, fails on a page whose markup announces the panel as
  expanded while its inline display is empty: the click sets the attribute to
  \<open>"false"\<close> and the display to \<open>block\<close>.
\<close>

theorem navToggleClick_diverges:
  "navToggleClick (sample_page\<lparr>navToggle := Some \<lparr>aria_expanded = Some (js ''true'')\<rparr>\<rparr>) =
     Done (sample_page\<lparr>navToggle := Some \<lparr>aria_expanded = Some (js ''false'')\<rparr>,
                        nav := Some \<lparr>nav_display = js ''block'', nav_links = 2\<rparr>\<rparr>)"
  by (simp add: navToggleClick_def sample_page_def js_empty)

section \<open>Properties of the project modal\<close>

lemmas modal_steps = save_focus_def set_title_def set_desc_def set_image_def set_hidden_def
  focus_close_def set_overflow_def restore_focus_def focus_def

lemma closeModal_Done:
  assumes "modal s = Some m"
  shows "\<exists>s'. closeModal s = Done s' \<and>
           modal s' = Some (m\<lparr>aria_hidden := Some (js ''true'')\<rparr>) \<and>
           body_overflow s' = [] \<and>
           activeElement s' =
             (case lastFocused s of
                None \<Rightarrow> activeElement s
              | Some el \<Rightarrow> if focus_method el \<and> focusable el then Some el else activeElement s)"
  using assms by (simp add: closeModal_def modal_steps split: option.splits)

text \<open>
  C5, as the code has it. Opening the modal with a title and a description writes exactly
  these into the title and description elements, whatever the image, and saves the element
  that has the focus. Closing it, whatever has taken the focus in between, calls
  \<open>focus\<close> on the saved element: the focus is back on it when it can take the focus,
  and stays where it was at the close when it cannot, or when no element was saved.
\<close>

theorem openModal_content_closeModal_refocus:
  assumes "modalTitle s = Some t0" and "modalDesc s = Some d0" and "modalImage s = Some img"
    and "modal s = Some m" and "modalClose s = Some c" and "focus_method c"
  shows "\<exists>s1. openModal \<lparr>title = Some t, desc = Some d, image = i\<rparr> s = Done s1 \<and>
           modalTitle s1 = Some t \<and> modalDesc s1 = Some d \<and>
           lastFocused s1 = activeElement s \<and>
           (\<forall>a. \<exists>s2. closeModal (s1\<lparr>activeElement := a\<rparr>) = Done s2 \<and>
                  activeElement s2 =
                    (case activeElement s of
                       None \<Rightarrow> a
                     | Some el \<Rightarrow> if focus_method el \<and> focusable el then Some el else a))"
  using assms
  by (simp add: openModal_def closeModal_def modal_steps or_empty_def split: option.splits)

theorem openModal_content_closeModal_refocus_witness:
  "\<exists>s1. openModal \<lparr>title = Some (js ''Shop''), desc = Some (js ''A shop''), image = None\<rparr>
           (sample_page\<lparr>activeElement := Some button_el\<rparr>) = Done s1 \<and>
           modalTitle s1 = Some (js ''Shop'') \<and> modalDesc s1 = Some (js ''A shop'') \<and>
           lastFocused s1 = Some button_el \<and>
           (\<forall>a. \<exists>s2. closeModal (s1\<lparr>activeElement := a\<rparr>) = Done s2 \<and>
                  activeElement s2 = Some button_el)"
  using openModal_content_closeModal_refocus
        [where s = "sample_page\<lparr>activeElement := Some button_el\<rparr>"
           and ?t0.0 = "[]" and ?d0.0 = "[]" and c = close_el
           and img = "\<lparr>src = [], alt = [], image_display = []\<rparr>"
           and m = "\<lparr>aria_hidden = Some (js ''true'')\<rparr>"
           and t = "js ''Shop''" and d = "js ''A shop''" and i = None]
  by (simp add: sample_page_def close_el_def button_el_def)

text \<open>
  C5, as the specification states it, fails when the element that has the focus before the
  open cannot take it back. On the sample page nothing is focused, so the body is the
  active element; after the modal has been opened and closed the close control still has
  the focus.
\<close>

theorem open_close_leaves_focus_on_close_control:
  "run [openModal \<lparr>title = Some (js ''Logo''), desc = Some (js ''A logo''), image = None\<rparr>,
        closeModal] sample_page =
     Done (sample_page
       \<lparr>lastFocused := Some body_el,
        modalTitle := Some (js ''Logo''),
        modalDesc := Some (js ''A logo''),
        modalImage := Some \<lparr>src = [], alt = [], image_display = js ''none''\<rparr>,
        activeElement := Some close_el\<rparr>) \<and>
   activeElement sample_page = Some body_el \<and> body_el \<noteq> close_el"
  by (simp add: openModal_def closeModal_def modal_steps sample_page_def close_el_def body_el_def
      or_empty_def)

text \<open>
  C10. Opening the modal without an image hides the image element and leaves its
  \<open>src\<close> and \<open>alt\<close> as they were, while the title and the description are rewritten.
\<close>

theorem openModal_without_image_keeps_src:
  assumes "modalTitle s = Some t0" and "modalDesc s = Some d0" and "modalImage s = Some img"
    and "modal s = Some m" and "modalClose s = Some c" and "focus_method c"
    and "or_empty (image k) = []"
  shows "\<exists>s1. openModal k s = Done s1 \<and>
           modalImage s1 = Some (img\<lparr>image_display := js ''none''\<rparr>) \<and>
           modalTitle s1 = Some (or_empty (title k)) \<and>
           modalDesc s1 = Some (or_empty (desc k))"
  using assms by (simp add: openModal_def modal_steps)

theorem openModal_without_image_keeps_src_witness:
  "\<exists>s1. openModal \<lparr>title = Some (js ''Logo''), desc = Some (js ''A logo''), image = None\<rparr>
           (sample_page\<lparr>modalImage :=
              Some \<lparr>src = js ''shop.png'', alt = js ''Shop'', image_display = []\<rparr>\<rparr>) = Done s1 \<and>
         modalImage s1 =
           Some \<lparr>src = js ''shop.png'', alt = js ''Shop'', image_display = js ''none''\<rparr> \<and>
         modalTitle s1 = Some (js ''Logo'') \<and> modalDesc s1 = Some (js ''A logo'')"
  using openModal_without_image_keeps_src
    [where s = "sample_page\<lparr>modalImage :=
                  Some \<lparr>src = js ''shop.png'', alt = js ''Shop'', image_display = []\<rparr>\<rparr>"
       and k = "\<lparr>title = Some (js ''Logo''), desc = Some (js ''A logo''), image = None\<rparr>"
       and ?t0.0 = "[]" and ?d0.0 = "[]" and c = close_el
       and img = "\<lparr>src = js ''shop.png'', alt = js ''Shop'', image_display = []\<rparr>"
       and m = "\<lparr>aria_hidden = Some (js ''true'')\<rparr>"]
  by (simp add: sample_page_def close_el_def or_empty_def)

text \<open>
  The image of an earlier open persists: after the first project of the sample page has been
  opened and closed, opening the second one, which has no image, leaves the first one's
  \<open>src\<close> and \<open>alt\<close> on the hidden image element.
\<close>

lemma image_persists_across_opens:
  "\<exists>s1 s2 s3. openProjectClick 0 sample_page = Done s1 \<and> closeModal s1 = Done s2 \<and>
     openProjectClick 1 s2 = Done s3 \<and>
     modalImage s3 = Some \<lparr>src = js ''shop.png'', alt = js ''Shop'', image_display = js ''none''\<rparr> \<and>
     modalTitle s3 = Some (js ''Logo'')"
  by (simp add: openProjectClick_def openModal_def closeModal_def modal_steps sample_page_def
      close_el_def or_empty_def js_empty)

section \<open>Properties of the keyboard handler\<close>

lemma openProjectClick_logo: "openProjectClick 1 sample_page = Done logo_open_page"
  by (simp add: openProjectClick_def openModal_def modal_steps sample_page_def logo_open_page_def
      close_el_def or_empty_def)

text \<open>
  C6, as the code has it. Escape on an open modal (\<open>aria-hidden\<close> is \<open>"false"\<close>) runs
  \<open>closeModal\<close>: the attribute becomes \<open>"true"\<close>, the page scrolls again, and
  \<open>focus\<close> is called on the element saved at the last open, so that the focus is on
  that element if it can take it and is left where it is if it cannot or if none was
  saved. Escape on a modal that is not open leaves the page and the event as they are.
\<close>

theorem escape_runs_closeModal_when_open:
  assumes "modal s = Some m" and "key e = js ''Escape''"
  shows "(aria_hidden m = Some (js ''false'') \<longrightarrow>
            (\<exists>s'. documentKeydown e s = Done (e, s') \<and> closeModal s = Done s' \<and>
                  modal s' = Some (m\<lparr>aria_hidden := Some (js ''true'')\<rparr>) \<and>
                  body_overflow s' = [] \<and>
                  activeElement s' =
                    (case lastFocused s of
                       None \<Rightarrow> activeElement s
                     | Some el \<Rightarrow>
                         if focus_method el \<and> focusable el then Some el else activeElement s))) \<and>
         (aria_hidden m \<noteq> Some (js ''false'') \<longrightarrow> documentKeydown e s = Done (e, s))"
proof (intro conjI impI)
  assume op: "aria_hidden m = Some (js ''false'')"
  from closeModal_Done [OF assms(1)] obtain s' where
    c: "closeModal s = Done s'" and
    r: "modal s' = Some (m\<lparr>aria_hidden := Some (js ''true'')\<rparr>) \<and> body_overflow s' = [] \<and>
        activeElement s' =
          (case lastFocused s of
             None \<Rightarrow> activeElement s
           | Some el \<Rightarrow> if focus_method el \<and> focusable el then Some el else activeElement s)"
    by blast
  from assms op c have "documentKeydown e s = Done (e, s')"
    by (simp add: documentKeydown_def escape_branch_def tab_branch_def modal_open_def
        with_event_def js_inject)
  with c r show "\<exists>s'. documentKeydown e s = Done (e, s') \<and> closeModal s = Done s' \<and>
      modal s' = Some (m\<lparr>aria_hidden := Some (js ''true'')\<rparr>) \<and> body_overflow s' = [] \<and>
      activeElement s' =
        (case lastFocused s of
           None \<Rightarrow> activeElement s
         | Some el \<Rightarrow> if focus_method el \<and> focusable el then Some el else activeElement s)"
    by blast
next
  assume "aria_hidden m \<noteq> Some (js ''false'')"
  with assms show "documentKeydown e s = Done (e, s)"
    by (simp add: documentKeydown_def escape_branch_def tab_branch_def modal_open_def js_inject)
qed

theorem escape_runs_closeModal_when_open_witness:
  "(\<exists>s'. documentKeydown \<lparr>key = js ''Escape'', shiftKey = False, defaultPrevented = False\<rparr>
            (sample_page\<lparr>modal := Some \<lparr>aria_hidden = Some (js ''false'')\<rparr>,
                          lastFocused := Some button_el, activeElement := Some close_el\<rparr>) =
          Done (\<lparr>key = js ''Escape'', shiftKey = False, defaultPrevented = False\<rparr>, s') \<and>
        modal s' = Some \<lparr>aria_hidden = Some (js ''true'')\<rparr> \<and> body_overflow s' = [] \<and>
        activeElement s' = Some button_el) \<and>
   documentKeydown \<lparr>key = js ''Escape'', shiftKey = False, defaultPrevented = False\<rparr> sample_page =
     Done (\<lparr>key = js ''Escape'', shiftKey = False, defaultPrevented = False\<rparr>, sample_page)"
  using escape_runs_closeModal_when_open
    [where s = "sample_page\<lparr>modal := Some \<lparr>aria_hidden = Some (js ''false'')\<rparr>,
                  lastFocused := Some button_el, activeElement := Some close_el\<rparr>"
       and m = "\<lparr>aria_hidden = Some (js ''false'')\<rparr>"
       and e = "\<lparr>key = js ''Escape'', shiftKey = False, defaultPrevented = False\<rparr>"]
    escape_runs_closeModal_when_open
    [where s = sample_page and m = "\<lparr>aria_hidden = Some (js ''true'')\<rparr>"
       and e = "\<lparr>key = js ''Escape'', shiftKey = False, defaultPrevented = False\<rparr>"]
  by (auto simp add: sample_page_def button_el_def close_el_def js_inject)

text \<open>
  C6, as the specification states it, fails on the focus when the saved element cannot
  take it. With the second project of the sample page open, where the body was saved,
  Escape closes the modal and lets the page scroll, and the close control keeps the focus.
\<close>

theorem escape_leaves_focus_on_close_control:
  "documentKeydown \<lparr>key = js ''Escape'', shiftKey = False, defaultPrevented = False\<rparr>
     logo_open_page =
   Done (\<lparr>key = js ''Escape'', shiftKey = False, defaultPrevented = False\<rparr>,
         logo_open_page\<lparr>modal := Some \<lparr>aria_hidden = Some (js ''true'')\<rparr>, body_overflow := []\<rparr>) \<and>
   lastFocused logo_open_page = Some body_el \<and>
   activeElement (logo_open_page\<lparr>modal := Some \<lparr>aria_hidden = Some (js ''true'')\<rparr>,
                                 body_overflow := []\<rparr>) = Some close_el \<and>
   body_el \<noteq> close_el"
  by (simp add: documentKeydown_def escape_branch_def tab_branch_def modal_open_def with_event_def
      closeModal_def modal_steps logo_open_page_def sample_page_def body_el_def close_el_def
      js_inject)

text \<open>
  C7, as the code has it. While the modal is open, Tab is intercepted only when the close
  control has the focus and Shift is not held: the default is prevented and the close
  control focused again. With the focus elsewhere, or with Shift held, the handler does
  nothing and the browser's own Tab handling goes ahead.
\<close>

theorem tab_trap_only_from_close_control:
  assumes "modal s = Some m" and "aria_hidden m = Some (js ''false'')" and "key e = js ''Tab''"
    and "modalClose s = Some c" and "focus_method c"
  shows "documentKeydown e s =
           (if activeElement s = Some c \<and> \<not> shiftKey e
            then Done (e\<lparr>defaultPrevented := True\<rparr>, focus c s)
            else Done (e, s))"
  using assms
  by (simp add: documentKeydown_def escape_branch_def tab_branch_def modal_open_def
      with_event_def modal_steps js_inject)

theorem tab_trap_only_from_close_control_witness:
  "documentKeydown \<lparr>key = js ''Tab'', shiftKey = False, defaultPrevented = False\<rparr>
     (sample_page\<lparr>modal := Some \<lparr>aria_hidden = Some (js ''false'')\<rparr>,
                   activeElement := Some close_el\<rparr>) =
   Done (\<lparr>key = js ''Tab'', shiftKey = False, defaultPrevented = True\<rparr>,
         sample_page\<lparr>modal := Some \<lparr>aria_hidden = Some (js ''false'')\<rparr>,
                       activeElement := Some close_el\<rparr>)"
  using tab_trap_only_from_close_control
    [where s = "sample_page\<lparr>modal := Some \<lparr>aria_hidden = Some (js ''false'')\<rparr>,
                  activeElement := Some close_el\<rparr>"
       and m = "\<lparr>aria_hidden = Some (js ''false'')\<rparr>" and c = close_el
       and e = "\<lparr>key = js ''Tab'', shiftKey = False, defaultPrevented = False\<rparr>"]
  by (simp add: sample_page_def close_el_def focus_def)

text \<open>
  C7, as the specification states it, fails when another element has the focus: the
  handler returns the event and the page untouched, and the focus is not on the close
  control.
\<close>

theorem tab_elsewhere_not_trapped:
  "documentKeydown \<lparr>key = js ''Tab'', shiftKey = False, defaultPrevented = False\<rparr>
     (sample_page\<lparr>modal := Some \<lparr>aria_hidden = Some (js ''false'')\<rparr>,
                   activeElement := Some button_el\<rparr>) =
   Done (\<lparr>key = js ''Tab'', shiftKey = False, defaultPrevented = False\<rparr>,
         sample_page\<lparr>modal := Some \<lparr>aria_hidden = Some (js ''false'')\<rparr>,
                       activeElement := Some button_el\<rparr>) \<and>
   activeElement (sample_page\<lparr>modal := Some \<lparr>aria_hidden = Some (js ''false'')\<rparr>,
                               activeElement := Some button_el\<rparr>) \<noteq>
   modalClose (sample_page\<lparr>modal := Some \<lparr>aria_hidden = Some (js ''false'')\<rparr>,
                            activeElement := Some button_el\<rparr>)"
  by (simp add: documentKeydown_def escape_branch_def tab_branch_def modal_open_def
      sample_page_def button_el_def close_el_def js_inject)

text \<open>With Shift held the handler does nothing either, although the close control has the focus.\<close>

lemma shift_tab_not_trapped:
  "documentKeydown \<lparr>key = js ''Tab'', shiftKey = True, defaultPrevented = False\<rparr>
     (sample_page\<lparr>modal := Some \<lparr>aria_hidden = Some (js ''false'')\<rparr>,
                   activeElement := Some close_el\<rparr>) =
   Done (\<lparr>key = js ''Tab'', shiftKey = True, defaultPrevented = False\<rparr>,
         sample_page\<lparr>modal := Some \<lparr>aria_hidden = Some (js ''false'')\<rparr>,
                       activeElement := Some close_el\<rparr>)"
  by (simp add: documentKeydown_def escape_branch_def tab_branch_def modal_open_def
      sample_page_def js_inject)

section \<open>Properties of the project filter\<close>









lemmas filter_steps = applyFilter_def filter_card_def filter_matches_def requestAnimationFrame_def
  setTimeout_def animation_frame_def elapse_def or_empty_def


text \<open>
  The callback that the script queues at its end has no such effect on the layout: applied
  before the first frame, a filter still takes the other cards out after 180 ms, but the
  start-up callback sets their opacity back to 1 at that frame.
\<close>

lemma filter_before_first_frame:
  "projects (elapse 180 (animation_frame (applyFilter (Some (js ''web''))
     (sample_page\<lparr>frame_callbacks := [LazyStart]\<rparr>)))) ! 1 =
   design_card\<lparr>transition_delay := 45, display := js ''none''\<rparr>"
  by (simp add: filter_steps sample_page_def web_card_def design_card_def js_inject upt_rec Let_def
      index_map_def)

section \<open>Properties of the contact form\<close>

lemmas form_steps = clear_status_def set_status_def field_value_def send_request_def
  after_fetch_def form_reset_def reset_field_def

lemma email_shape_nonempty: "email_shape e \<Longrightarrow> e \<noteq> []"
  by (auto simp: email_shape_def)

lemma failure_text_nonempty: "failure_text b \<noteq> []"
  by (simp add: failure_text_def js_empty split: body.splits option.splits)

lemma sample_email_shape: "email_shape (js ''ada@example.org'')"
  unfolding email_pattern_shape [symmetric] by code_simp

lemma sample_trims:
  "trim (js ''Ada'') = js ''Ada''" "trim (js '' ada@example.org'') = js ''ada@example.org''"
  "trim (js ''Hello'') = js ''Hello''" "trim (js ''ada at example'') = js ''ada at example''"
  by code_simp+

lemma sample_endpoint: "includes_str (js ''https://formspree.io/f/abc'') (js ''formspree.io'')"
  by code_simp

text \<open>
  C2. A submission that passes the checks on a form whose action names the remote endpoint
  sends one request. On a success status the status region shows the thanks in green and
  every field goes back to its default value; on a failure status or a rejected request
  it shows an error text in red, and the fields keep what the user typed.
\<close>

theorem remote_submission_outcome:
  assumes "status s = Some st" and "form s = Some fm"
    and "name_field s = Some fn" and "email_field s = Some fe" and "message_field s = Some fg"
    and "trim (fvalue fn) \<noteq> []" and "email_shape (trim (fvalue fe))" and "trim (fvalue fg) \<noteq> []"
    and "includes_str (or_empty (action fm)) (js ''formspree.io'')"
  shows "formSubmit (Response True b) s =
           Done (s\<lparr>status := Some (st\<lparr>status_text := js ''Thanks '' @ [emdash] @ js '' message sent.'',
                                      status_color := js ''limegreen''\<rparr>),
                   fetched := fetched s @ [or_empty (action fm)],
                   name_field := Some (fn\<lparr>fvalue := fdefault fn\<rparr>),
                   email_field := Some (fe\<lparr>fvalue := fdefault fe\<rparr>),
                   message_field := Some (fg\<lparr>fvalue := fdefault fg\<rparr>)\<rparr>) \<and>
         formSubmit (Response False b) s =
           Done (s\<lparr>status := Some (st\<lparr>status_text := failure_text b, status_color := js ''tomato''\<rparr>),
                   fetched := fetched s @ [or_empty (action fm)]\<rparr>) \<and>
         failure_text b \<noteq> [] \<and>
         formSubmit NetworkError s =
           Done (s\<lparr>status := Some (st\<lparr>status_text :=
                                        js ''Network error '' @ [emdash] @ js '' please use the email fallback.'',
                                      status_color := js ''tomato''\<rparr>),
                   fetched := fetched s @ [or_empty (action fm)]\<rparr>)"
proof -
  from assms(7) have ok: "test_pattern email_pattern (trim (fvalue fe))"
    by (simp add: email_pattern_shape)
  from assms(7) have ne: "trim (fvalue fe) \<noteq> []" by (rule email_shape_nonempty)
  show ?thesis
    using assms(1-6,8,9) ok ne
    by (simp add: formSubmit_def form_steps failure_text_nonempty)
qed

theorem remote_submission_outcome_witness:
  "formSubmit (Response True NoJson) sample_page =
     Done (sample_page
       \<lparr>status := Some \<lparr>status_text = js ''Thanks '' @ [emdash] @ js '' message sent.'',
                        status_color = js ''limegreen''\<rparr>,
        fetched := [js ''https://formspree.io/f/abc''],
        name_field := Some \<lparr>fvalue = [], fdefault = []\<rparr>,
        email_field := Some \<lparr>fvalue = [], fdefault = []\<rparr>,
        message_field := Some \<lparr>fvalue = [], fdefault = []\<rparr>\<rparr>) \<and>
   formSubmit (Response False NoJson) sample_page =
     Done (sample_page
       \<lparr>status := Some \<lparr>status_text =
                          js ''Submission failed '' @ [emdash] @ js '' try the email fallback.'',
                        status_color = js ''tomato''\<rparr>,
        fetched := [js ''https://formspree.io/f/abc'']\<rparr>) \<and>
   formSubmit NetworkError sample_page =
     Done (sample_page
       \<lparr>status := Some \<lparr>status_text =
                          js ''Network error '' @ [emdash] @ js '' please use the email fallback.'',
                        status_color = js ''tomato''\<rparr>,
        fetched := [js ''https://formspree.io/f/abc'']\<rparr>)"
  using remote_submission_outcome
    [where s = sample_page and b = NoJson
       and st = "\<lparr>status_text = [], status_color = []\<rparr>"
       and fm = "\<lparr>action = Some (js ''https://formspree.io/f/abc'')\<rparr>"
       and fn = "\<lparr>fvalue = js ''Ada'', fdefault = []\<rparr>"
       and fe = "\<lparr>fvalue = js '' ada@example.org'', fdefault = []\<rparr>"
       and fg = "\<lparr>fvalue = js ''Hello'', fdefault = []\<rparr>"]
  by (simp add: sample_page_def sample_trims sample_email_shape sample_endpoint js_empty
      or_empty_def failure_text_def)

text \<open>
  C3. When the trimmed email does not have the shape, the handler stops at one of its two
  checks: the status region shows a validation message in red (the one about the email
  unless a field is empty), no request is sent and the page does not navigate.
\<close>

theorem malformed_email_blocks_submission:
  assumes "status s = Some st"
    and "name_field s = Some fn" and "email_field s = Some fe" and "message_field s = Some fg"
    and "\<not> email_shape (trim (fvalue fe))"
  shows "\<exists>s'. formSubmit r s = Done s' \<and>
           s' = s\<lparr>status := Some (st\<lparr>status_text :=
                     (if trim (fvalue fn) = [] \<or> trim (fvalue fe) = [] \<or> trim (fvalue fg) = []
                      then js ''Please complete all fields.''
                      else js ''Please enter a valid email address.''),
                     status_color := js ''tomato''\<rparr>)\<rparr> \<and>
           fetched s' = fetched s \<and> location_href s' = location_href s"
proof -
  from assms(5) have bad: "\<not> test_pattern email_pattern (trim (fvalue fe))"
    by (simp add: email_pattern_shape)
  show ?thesis
    using assms(1-4) bad
    by (simp add: formSubmit_def form_steps)
qed

theorem malformed_email_blocks_submission_witness:
  "formSubmit (Response True NoJson)
     (sample_page\<lparr>email_field := Some \<lparr>fvalue = js ''ada at example'', fdefault = []\<rparr>\<rparr>) =
   Done (sample_page
     \<lparr>email_field := Some \<lparr>fvalue = js ''ada at example'', fdefault = []\<rparr>,
      status := Some \<lparr>status_text = js ''Please enter a valid email address.'',
                      status_color = js ''tomato''\<rparr>\<rparr>)"
proof -
  have bad: "\<not> email_shape (trim (fvalue \<lparr>fvalue = js ''ada at example'', fdefault = []\<rparr>))"
    unfolding email_pattern_shape [symmetric] by code_simp
  show ?thesis
    using malformed_email_blocks_submission
      [where s = "sample_page\<lparr>email_field := Some \<lparr>fvalue = js ''ada at example'', fdefault = []\<rparr>\<rparr>"
         and r = "Response True NoJson"
         and st = "\<lparr>status_text = [], status_color = []\<rparr>"
         and fn = "\<lparr>fvalue = js ''Ada'', fdefault = []\<rparr>"
         and fe = "\<lparr>fvalue = js ''ada at example'', fdefault = []\<rparr>"
         and fg = "\<lparr>fvalue = js ''Hello'', fdefault = []\<rparr>", OF _ _ _ _ bad]
    by (simp add: sample_page_def sample_trims js_empty)
qed

text \<open>
  C9, as the code has it. The mail-fallback control checks nothing: whatever the trimmed
  values are, empty or not, an email or not, it navigates to the mailto link made of them,
  with \<open>Website\<close> in the subject for an empty name, as long as they are well-formed
  UTF-16, which is what \<open>encodeURIComponent\<close> needs.
\<close>

theorem mailFallbackClick_navigates_unvalidated:
  assumes "name_field s = Some fn" and "email_field s = Some fe" and "message_field s = Some fg"
    and "well_formed (trim (fvalue fn))" and "well_formed (trim (fvalue fe))"
    and "well_formed (trim (fvalue fg))"
  shows "\<exists>subject body.
           encodeURIComponent
             (js ''Contact from '' @
                (if trim (fvalue fn) = [] then js ''Website'' else trim (fvalue fn))) = Inr subject \<and>
           encodeURIComponent
             (mail_body (trim (fvalue fn)) (trim (fvalue fe)) (trim (fvalue fg))) = Inr body \<and>
           mailFallbackClick s = Done (s\<lparr>location_href := mailto subject body\<rparr>)"
proof -
  let ?name = "trim (fvalue fn)" and ?email = "trim (fvalue fe)" and ?message = "trim (fvalue fg)"
  let ?st = "js ''Contact from '' @ (if ?name = [] then js ''Website'' else ?name)"
  have "well_formed ?st"
    using assms(4) by (simp add: well_formed_append well_formed_js)
  then obtain subject where su: "encodeURIComponent ?st = Inr subject"
    using encode_ok by blast
  have sep: "well_formed [0x0A, 0x0A, emdash, 0x20]" "well_formed [0x0A :: jschar]"
    by (simp_all add: is_trail_def is_lead_def emdash_def)
  have "well_formed (mail_body ?name ?email ?message)"
    unfolding mail_body_def
    by (intro well_formed_append assms sep)
  then obtain body where bo: "encodeURIComponent (mail_body ?name ?email ?message) = Inr body"
    using encode_ok by blast
  from assms(1-3) su bo have "mailFallbackClick s = Done (s\<lparr>location_href := mailto subject body\<rparr>)"
    by (simp add: mailFallbackClick_def navigate_mailto_def field_value_def)
  with su bo show ?thesis by blast
qed

theorem mailFallbackClick_navigates_unvalidated_witness:
  "\<exists>subject body.
     encodeURIComponent (js ''Contact from '' @ js ''Website'') = Inr subject \<and>
     encodeURIComponent (mail_body [] (js ''not an email'') []) = Inr body \<and>
     mailFallbackClick
       (sample_page\<lparr>name_field := Some \<lparr>fvalue = [], fdefault = []\<rparr>,
                     email_field := Some \<lparr>fvalue = js ''not an email'', fdefault = []\<rparr>,
                     message_field := Some \<lparr>fvalue = [], fdefault = []\<rparr>\<rparr>) =
     Done (sample_page
       \<lparr>name_field := Some \<lparr>fvalue = [], fdefault = []\<rparr>,
        email_field := Some \<lparr>fvalue = js ''not an email'', fdefault = []\<rparr>,
        message_field := Some \<lparr>fvalue = [], fdefault = []\<rparr>,
        location_href := mailto subject body\<rparr>)"
proof -
  have tr: "trim [] = []" "trim (js ''not an email'') = js ''not an email''"
    by code_simp+
  have wf: "well_formed (trim (fvalue \<lparr>fvalue = [], fdefault = []\<rparr>))"
    "well_formed (trim (fvalue \<lparr>fvalue = js ''not an email'', fdefault = []\<rparr>))"
    by (simp_all add: tr well_formed_js)
  show ?thesis
    using mailFallbackClick_navigates_unvalidated
      [where s = "sample_page\<lparr>name_field := Some \<lparr>fvalue = [], fdefault = []\<rparr>,
                    email_field := Some \<lparr>fvalue = js ''not an email'', fdefault = []\<rparr>,
                    message_field := Some \<lparr>fvalue = [], fdefault = []\<rparr>\<rparr>"
         and fn = "\<lparr>fvalue = [], fdefault = []\<rparr>"
         and fe = "\<lparr>fvalue = js ''not an email'', fdefault = []\<rparr>"
         and fg = "\<lparr>fvalue = [], fdefault = []\<rparr>", OF _ _ _ wf(1) wf(2) wf(1)]
    by (simp add: tr)
qed

lemma encode_after_literal:
  "encodeURIComponent s = Inl e \<Longrightarrow> encodeURIComponent (js a @ s) = Inl e"
proof (induction a)
  case Nil
  then show ?case by (simp add: js_def)
next
  case (Cons x a)
  have u: "unat (word_of_nat (of_char x) :: 16 word) < 256"
    by (simp only: unat_js_char nat_of_char_less_256)
  have "\<not> is_trail (word_of_nat (of_char x))" "\<not> is_lead (word_of_nat (of_char x))"
    using u unfolding is_trail_def is_lead_def word_le_nat_alt
    by (simp_all del: unsigned_of_nat)
  moreover from Cons have "encodeURIComponent (js a @ s) = Inl e" by simp
  ultimately show ?case by (simp add: js_def escaped_def)
qed

lemma encode_lone_lead: "encodeURIComponent [0xD800] = Inl URIError"
  by (simp add: unreserved_def is_trail_def is_lead_def)

lemma trim_lone_lead: "trim [0xD800] = [0xD800]"
  by (simp add: trim_def is_space_def)

text \<open>
  C9, as stated for every value, fails on a name that holds a lone surrogate:
  \<open>encodeURIComponent\<close> raises URIError and the page does not navigate.
\<close>

theorem mailFallbackClick_lone_surrogate:
  "mailFallbackClick (sample_page\<lparr>name_field := Some \<lparr>fvalue = [0xD800], fdefault = []\<rparr>\<rparr>) =
     Raised URIError (sample_page\<lparr>name_field := Some \<lparr>fvalue = [0xD800], fdefault = []\<rparr>\<rparr>)"
  by (simp add: mailFallbackClick_def navigate_mailto_def field_value_def sample_page_def
      trim_lone_lead encode_after_literal [OF encode_lone_lead])

end
